theory Spec2Isabelle
  imports Complex_Main "HOL-Library.AList"
begin

section \<open>Numbers as the program sees them\<close>

text \<open>
  Every quantity of \<^verbatim>\<open>app.py\<close> is a Python or numpy number. Missing data is the
  float NaN throughout pandas, and the behaviour of the program on NaN is what several
  properties are about, so NaN is a value of the model, as are the two infinities that
  a division by zero produces in numpy. A finite number is an exact real: rounding,
  overflow and the sign of zero are left out. Python's \<^verbatim>\<open>int\<close> and \<^verbatim>\<open>float\<close> are not
  told apart (\<^verbatim>\<open>50\<close> and \<^verbatim>\<open>50.0\<close> are both \<open>Num 50\<close>).
\<close>

datatype pyfloat = Num real | PInf | NInf | NaN

text \<open>Comparisons: every comparison with NaN is false.\<close>

fun py_lt :: "pyfloat \<Rightarrow> pyfloat \<Rightarrow> bool" where
  "py_lt NaN _ = False"
| "py_lt _ NaN = False"
| "py_lt (Num a) (Num b) = (a < b)"
| "py_lt PInf _ = False"
| "py_lt _ PInf = True"
| "py_lt _ NInf = False"
| "py_lt NInf _ = True"

definition py_gt :: "pyfloat \<Rightarrow> pyfloat \<Rightarrow> bool" where
  "py_gt a b = py_lt b a"

fun py_ge :: "pyfloat \<Rightarrow> pyfloat \<Rightarrow> bool" where
  "py_ge NaN _ = False"
| "py_ge _ NaN = False"
| "py_ge (Num a) (Num b) = (b \<le> a)"
| "py_ge PInf _ = True"
| "py_ge _ NInf = True"
| "py_ge _ PInf = False"
| "py_ge NInf _ = False"

text \<open>Arithmetic: NaN propagates, opposite infinities cancel to NaN.\<close>

fun py_add :: "pyfloat \<Rightarrow> pyfloat \<Rightarrow> pyfloat" where
  "py_add NaN _ = NaN"
| "py_add _ NaN = NaN"
| "py_add (Num a) (Num b) = Num (a + b)"
| "py_add PInf NInf = NaN"
| "py_add NInf PInf = NaN"
| "py_add PInf _ = PInf"
| "py_add _ PInf = PInf"
| "py_add NInf _ = NInf"
| "py_add _ NInf = NInf"

fun py_neg :: "pyfloat \<Rightarrow> pyfloat" where
  "py_neg (Num a) = Num (- a)"
| "py_neg PInf = NInf"
| "py_neg NInf = PInf"
| "py_neg NaN = NaN"

definition py_sub :: "pyfloat \<Rightarrow> pyfloat \<Rightarrow> pyfloat" where
  "py_sub a b = py_add a (py_neg b)"

text \<open>The infinity of the sign of \<open>s\<close>; NaN when \<open>s\<close> is zero.\<close>

definition inf_of_sign :: "real \<Rightarrow> pyfloat" where
  "inf_of_sign s = (if s = 0 then NaN else if 0 < s then PInf else NInf)"

fun py_mul :: "pyfloat \<Rightarrow> pyfloat \<Rightarrow> pyfloat" where
  "py_mul NaN _ = NaN"
| "py_mul _ NaN = NaN"
| "py_mul (Num a) (Num b) = Num (a * b)"
| "py_mul (Num a) PInf = inf_of_sign a"
| "py_mul (Num a) NInf = inf_of_sign (- a)"
| "py_mul PInf (Num b) = inf_of_sign b"
| "py_mul NInf (Num b) = inf_of_sign (- b)"
| "py_mul PInf PInf = PInf"
| "py_mul NInf NInf = PInf"
| "py_mul PInf NInf = NInf"
| "py_mul NInf PInf = NInf"

text \<open>
  Division of numpy floats: a finite number over zero is an infinity (NaN for 0/0), never
  an exception.
\<close>

fun py_div :: "pyfloat \<Rightarrow> pyfloat \<Rightarrow> pyfloat" where
  "py_div NaN _ = NaN"
| "py_div _ NaN = NaN"
| "py_div (Num a) (Num b) = (if b = 0 then inf_of_sign a else Num (a / b))"
| "py_div (Num a) _ = Num 0"
| "py_div PInf (Num b) = (if 0 \<le> b then PInf else NInf)"
| "py_div NInf (Num b) = (if 0 \<le> b then NInf else PInf)"
| "py_div _ _ = NaN"

fun py_abs :: "pyfloat \<Rightarrow> pyfloat" where
  "py_abs (Num a) = Num \<bar>a\<bar>"
| "py_abs PInf = PInf"
| "py_abs NInf = PInf"
| "py_abs NaN = NaN"

text \<open>
  Python's built-in \<^verbatim>\<open>min(a, b)\<close> keeps \<open>a\<close> unless \<^verbatim>\<open>b < a\<close>, and \<^verbatim>\<open>max(a, b)\<close> keeps
  \<open>a\<close> unless \<^verbatim>\<open>b > a\<close>; with a NaN second argument both return the first.
\<close>

definition py_min :: "pyfloat \<Rightarrow> pyfloat \<Rightarrow> pyfloat" where
  "py_min a b = (if py_lt b a then b else a)"

definition py_max :: "pyfloat \<Rightarrow> pyfloat \<Rightarrow> pyfloat" where
  "py_max a b = (if py_gt b a then b else a)"

section \<open>Rows and series\<close>

text \<open>
  A date is the ordinal of a day. A row is a pandas Series cut from a frame: its
  \<^verbatim>\<open>name\<close> is the date label, its items are the frame's columns at that date. A
  series is a list of labelled values. \<^verbatim>\<open>get(key, default)\<close> of either returns the
  default only when the key is absent: a present NaN is returned as it is.
\<close>

type_synonym date = int

record row =
  name :: date
  items :: "(string \<times> pyfloat) list"

type_synonym series = "(date \<times> pyfloat) list"

definition row_get :: "row \<Rightarrow> string \<Rightarrow> pyfloat \<Rightarrow> pyfloat" where
  "row_get r k d = (case map_of (items r) k of None \<Rightarrow> d | Some v \<Rightarrow> v)"

definition series_get :: "series \<Rightarrow> date \<Rightarrow> pyfloat \<Rightarrow> pyfloat" where
  "series_get s k d = (case map_of s k of None \<Rightarrow> d | Some v \<Rightarrow> v)"

section \<open>The composite score\<close>

text \<open>
  \<^verbatim>\<open>calculate_composite_score(row)\<close> reads the globals \<^verbatim>\<open>vix_series\<close> and
  \<^verbatim>\<open>pcr_series\<close>; they are parameters here. The running \<^verbatim>\<open>score\<close> is threaded
  through seven blocks, one function each, in the order of the source.
\<close>

definition dev_avg :: "row \<Rightarrow> pyfloat" where
  "dev_avg r =
     py_div (py_add (py_add (row_get r ''Dev_50'' (Num 0)) (row_get r ''Dev_100'' (Num 0)))
                    (row_get r ''Dev_200'' (Num 0)))
            (Num 3)"

definition score_deviation :: "pyfloat \<Rightarrow> pyfloat \<Rightarrow> pyfloat" where
  "score_deviation score dev =
     (if py_lt (Num (- 2)) dev \<and> py_lt dev (Num 5) then py_add score (Num 10)
      else if py_lt dev (Num (- 10)) \<or> py_gt dev (Num 15) then py_sub score (Num 15)
      else py_add score (py_sub (Num 5) (py_div (py_abs dev) (Num 5))))"

definition score_vix :: "pyfloat \<Rightarrow> pyfloat \<Rightarrow> pyfloat" where
  "score_vix score vix_val =
     (if py_lt vix_val (Num 16) then py_add score (Num 10)
      else if py_gt vix_val (Num 30) then py_sub score (Num 10)
      else py_add score (py_div (py_sub (Num 30) vix_val) (Num 1.5)))"

definition score_breadth :: "pyfloat \<Rightarrow> pyfloat \<Rightarrow> pyfloat" where
  "score_breadth score breadth_val =
     (if py_gt breadth_val (Num 70) then py_add score (Num 7.5)
      else if py_lt breadth_val (Num 30) then py_sub score (Num 7.5)
      else py_add score (py_div (py_sub breadth_val (Num 50)) (Num 4)))"

definition score_spread :: "pyfloat \<Rightarrow> pyfloat \<Rightarrow> pyfloat" where
  "score_spread score spread_val =
     (if py_lt spread_val (Num (- 2)) then py_add score (Num 7.5)
      else if py_gt spread_val (Num 5) then py_sub score (Num 7.5)
      else py_sub score (py_mul spread_val (Num 1.5)))"

definition score_yield :: "pyfloat \<Rightarrow> pyfloat \<Rightarrow> pyfloat" where
  "score_yield score yield_val =
     (if py_gt yield_val (Num 0.1) then py_add score (Num 7.5)
      else if py_lt yield_val (Num (- 0.2)) then py_sub score (Num 7.5)
      else py_add score (py_mul yield_val (Num 30)))"

definition score_pcr :: "pyfloat \<Rightarrow> pyfloat \<Rightarrow> pyfloat" where
  "score_pcr score pcr_val =
     (if py_lt pcr_val (Num 0.8) then py_sub score (Num 5)
      else if py_gt pcr_val (Num 1.2) then py_add score (Num 5)
      else py_add score (py_mul (py_sub (Num 1.0) pcr_val) (Num 10)))"

definition score_momentum :: "pyfloat \<Rightarrow> pyfloat \<Rightarrow> pyfloat" where
  "score_momentum score mom_val =
     (if py_gt mom_val (Num 3) then py_add score (Num 2.5)
      else if py_lt mom_val (Num (- 3)) then py_sub score (Num 2.5)
      else py_add score (py_div mom_val (Num 1.5)))"

definition calculate_composite_score :: "series \<Rightarrow> series \<Rightarrow> row \<Rightarrow> pyfloat" where
  "calculate_composite_score vix_series pcr_series r =
     (let score = Num 50;
          score = score_deviation score (dev_avg r);
          score = score_vix score (series_get vix_series (name r) (Num 20));
          score = score_breadth score (row_get r ''Breadth'' (Num 50));
          score = score_spread score (row_get r ''Junk_Spread'' (Num 0));
          score = score_yield score (row_get r ''Yield_Curve'' (Num 0));
          score = score_pcr score (series_get pcr_series (name r) (Num 1.0));
          score = score_momentum score (row_get r ''Momentum_5D'' (Num 0))
      in py_max (Num 0) (py_min (Num 100) score))"

text \<open>The row keys whose values enter the arithmetic of the score.\<close>

definition consumed_fields :: "string list" where
  "consumed_fields =
     [''Dev_50'', ''Dev_100'', ''Dev_200'', ''Breadth'', ''Junk_Spread'', ''Yield_Curve'',
      ''Momentum_5D'']"

section \<open>Frames\<close>

text \<open>
  A frame is a pandas DataFrame: a date index and named columns of numbers, in column
  order. \<^verbatim>\<open>iloc[i]\<close> (and each row that \<^verbatim>\<open>apply(..., axis=1)\<close> passes on) is the row at
  position \<open>i\<close>, defined for \<open>i\<close> below the length of the index. \<^verbatim>\<open>index.get_loc\<close> is
  the position of a label, \<^verbatim>\<open>loc[label, column]\<close> the cell at it; both raise KeyError
  for a label or a column that is not there. The labels of an index are taken to be
  distinct, as trading dates are.
\<close>

datatype error = KeyError | IndexError

record frame =
  index :: "date list"
  columns :: "(string \<times> pyfloat list) list"

definition iloc :: "frame \<Rightarrow> nat \<Rightarrow> row" where
  "iloc df i = \<lparr>name = index df ! i, items = map (\<lambda>(k, c). (k, c ! i)) (columns df)\<rparr>"

fun get_loc :: "date list \<Rightarrow> date \<Rightarrow> nat option" where
  "get_loc [] d = None"
| "get_loc (x # xs) d = (if x = d then Some 0 else map_option Suc (get_loc xs d))"

definition frame_loc :: "frame \<Rightarrow> date \<Rightarrow> string \<Rightarrow> error + pyfloat" where
  "frame_loc df label col =
     (case map_of (columns df) col of
        None \<Rightarrow> Inl KeyError
      | Some c \<Rightarrow> (case get_loc (index df) label of
                    None \<Rightarrow> Inl KeyError
                  | Some j \<Rightarrow> Inr (c ! j)))"

text \<open>\<^verbatim>\<open>tail(n)\<close>: the last \<open>n\<close> entries, all of them when there are fewer.\<close>

definition tail :: "nat \<Rightarrow> 'a list \<Rightarrow> 'a list" where
  "tail n xs = drop (length xs - n) xs"

text \<open>\<^verbatim>\<open>Series.max()\<close> skips NaN; it is NaN when nothing else is there.\<close>

definition series_max :: "pyfloat list \<Rightarrow> pyfloat" where
  "series_max xs =
     (case filter (\<lambda>x. x \<noteq> NaN) xs of
        [] \<Rightarrow> NaN
      | y # ys \<Rightarrow> foldl (\<lambda>m x. if py_gt x m then x else m) y ys)"

section \<open>Alignment on the primary index\<close>

text \<open>
  \<^verbatim>\<open>reindex(common_index)\<close> looks every date of the new index up in the series: the
  value observed at exactly that date, NaN when there is none. \<^verbatim>\<open>ffill()\<close> then
  replaces each NaN by the last value before it that is not NaN, and leaves the leading
  NaNs. The volatility and the sentiment series are aligned by both
  (\<^verbatim>\<open>.reindex(common_index).ffill()\<close>); a series assigned to a column of the primary
  frame (\<^verbatim>\<open>primary_df['Breadth'] = ...\<close>) is aligned on the frame's index by pandas, which
  is \<^verbatim>\<open>reindex\<close> alone.
\<close>

definition reindex :: "series \<Rightarrow> date list \<Rightarrow> series" where
  "reindex s idx = map (\<lambda>d. (d, case map_of s d of None \<Rightarrow> NaN | Some v \<Rightarrow> v)) idx"

fun ffill_values :: "pyfloat \<Rightarrow> pyfloat list \<Rightarrow> pyfloat list" where
  "ffill_values prev [] = []"
| "ffill_values prev (v # vs) =
     (if v = NaN then prev # ffill_values prev vs else v # ffill_values v vs)"

definition ffill :: "series \<Rightarrow> series" where
  "ffill s = zip (map fst s) (ffill_values NaN (map snd s))"

definition reindex_ffill :: "series \<Rightarrow> date list \<Rightarrow> series" where
  "reindex_ffill s common_index = ffill (reindex s common_index)"

definition set_column :: "frame \<Rightarrow> string \<Rightarrow> series \<Rightarrow> frame" where
  "set_column df k s = df\<lparr>columns := AList.update k (map snd (reindex s (index df))) (columns df)\<rparr>"

text \<open>
  An auxiliary series has no usable observation at a date when the date is missing from
  it or holds NaN.
\<close>

definition unobserved :: "series \<Rightarrow> date \<Rightarrow> bool" where
  "unobserved s d = (case map_of s d of None \<Rightarrow> True | Some v \<Rightarrow> v = NaN)"

section \<open>Downloaded prices and the indicators\<close>

text \<open>
  What \<^verbatim>\<open>yf.download\<close> returns for one instrument: dates and the price columns, finite
  numbers all. The frame is \<^verbatim>\<open>empty\<close> when it has no dates. The download itself is
  outside the program; its results are the input of \<^verbatim>\<open>fetch_all_data\<close> here.
\<close>

record bars =
  dates :: "date list"
  opens :: "real list"
  highs :: "real list"
  lows :: "real list"
  closes :: "real list"
  volumes :: "real list"

definition wf_bars :: "bars \<Rightarrow> bool" where
  "wf_bars b =
     (length (opens b) = length (dates b) \<and> length (highs b) = length (dates b)
      \<and> length (lows b) = length (dates b) \<and> length (closes b) = length (dates b)
      \<and> length (volumes b) = length (dates b))"

definition frame_of_bars :: "bars \<Rightarrow> frame" where
  "frame_of_bars b =
     \<lparr>index = dates b,
      columns = [(''Open'', map Num (opens b)), (''High'', map Num (highs b)),
                 (''Low'', map Num (lows b)), (''Close'', map Num (closes b)),
                 (''Volume'', map Num (volumes b))]\<rparr>"

text \<open>
  The mean of the \<open>w\<close> entries that end at position \<open>i\<close>. Both \<^verbatim>\<open>talib.SMA\<close> and
  \<^verbatim>\<open>rolling(w).mean()\<close> return it from position \<open>w - 1\<close> on, and NaN before.
\<close>

definition trailing_mean :: "real list \<Rightarrow> nat \<Rightarrow> nat \<Rightarrow> real" where
  "trailing_mean xs w i = sum_list (take w (drop (Suc i - w) xs)) / real w"

definition SMA :: "real list \<Rightarrow> nat \<Rightarrow> pyfloat list" where
  "SMA xs timeperiod =
     map (\<lambda>i. if Suc i < timeperiod then NaN else Num (trailing_mean xs timeperiod i))
       [0..<length xs]"

definition rolling_mean :: "real list \<Rightarrow> nat \<Rightarrow> pyfloat list" where
  "rolling_mean xs w =
     map (\<lambda>i. if Suc i < w then NaN else Num (trailing_mean xs w i)) [0..<length xs]"

text \<open>\<^verbatim>\<open>pct_change(n)\<close>: the relative change over \<open>n\<close> rows, NaN for the first \<open>n\<close>.\<close>

definition pct_change :: "real list \<Rightarrow> nat \<Rightarrow> pyfloat list" where
  "pct_change xs n =
     map (\<lambda>i. if i < n then NaN
              else py_sub (py_div (Num (xs ! i)) (Num (xs ! (i - n)))) (Num 1))
       [0..<length xs]"

text \<open>\<^verbatim>\<open>(close / df['MA_N'] - 1) * 100\<close>, row by row.\<close>

definition deviation :: "real list \<Rightarrow> pyfloat list \<Rightarrow> pyfloat list" where
  "deviation close ma =
     map2 (\<lambda>c m. py_mul (py_sub (py_div (Num c) m) (Num 1)) (Num 100)) close ma"

text \<open>
  \<^verbatim>\<open>talib.ATR\<close> and \<^verbatim>\<open>talib.RSI\<close> fill two columns that neither the score nor any rule
  reads; the two library functions are parameters of the model.
\<close>

record talib =
  ATR :: "real list \<Rightarrow> real list \<Rightarrow> real list \<Rightarrow> nat \<Rightarrow> pyfloat list"
  RSI :: "real list \<Rightarrow> nat \<Rightarrow> pyfloat list"

definition calculate_technical_indicators :: "talib \<Rightarrow> bars \<Rightarrow> frame" where
  "calculate_technical_indicators ta b =
     (let df = frame_of_bars b;
          close = closes b;
          ma_50 = SMA close 50;
          ma_100 = SMA close 100;
          ma_200 = SMA close 200
      in df\<lparr>columns := columns df @
           [(''MA_50'', ma_50), (''MA_100'', ma_100), (''MA_200'', ma_200),
            (''Dev_50'', deviation close ma_50),
            (''Dev_100'', deviation close ma_100),
            (''Dev_200'', deviation close ma_200),
            (''Momentum_5D'', map (\<lambda>x. py_mul x (Num 100)) (pct_change close 5)),
            (''ATR'', ATR ta (highs b) (lows b) close 14),
            (''RSI'', RSI ta close 14)]\<rparr>)"

text \<open>
  \<^verbatim>\<open>calculate_market_breadth\<close>: the comparison with a NaN mean is false, and
  \<^verbatim>\<open>astype(int) * 100\<close> turns the truth value into 100 or 0.
\<close>

definition breadth_proxy :: "real list \<Rightarrow> pyfloat list" where
  "breadth_proxy close =
     map2 (\<lambda>c m. py_mul (if py_gt (Num c) m then Num 1 else Num 0) (Num 100))
       close (rolling_mean close 50)"

definition calculate_market_breadth :: "bars \<Rightarrow> frame" where
  "calculate_market_breadth b =
     (let df = frame_of_bars b
      in df\<lparr>columns := columns df @ [(''Breadth_Proxy'', breadth_proxy (closes b))]\<rparr>)"

text \<open>
  \<^verbatim>\<open>fetch_all_data\<close> returns \<^verbatim>\<open>None\<close> when the primary download is empty, and the run
  stops there (\<^verbatim>\<open>if not all_data: st.stop()\<close>); otherwise the indicators are computed
  from the primary bars.
\<close>

record downloads =
  ticker_data :: bars
  vix_data :: bars
  hyg_data :: bars
  tlt_data :: bars
  spy_data :: bars

record data =
  primary :: bars
  vix :: bars
  hyg :: bars
  tlt :: bars
  spy :: bars
  pcr_estimate :: series

definition fetch_all_data :: "downloads \<Rightarrow> data option" where
  "fetch_all_data dl =
     (if dates (ticker_data dl) = [] then None
      else Some \<lparr>primary = ticker_data dl, vix = vix_data dl, hyg = hyg_data dl,
                 tlt = tlt_data dl, spy = spy_data dl,
                 pcr_estimate =
                   zip (dates (vix_data dl))
                     (map2 (\<lambda>c m. py_div (Num c) m) (closes (vix_data dl))
                        (rolling_mean (closes (vix_data dl)) 20))\<rparr>)"

definition primary_indicators :: "talib \<Rightarrow> downloads \<Rightarrow> frame option" where
  "primary_indicators ta dl =
     (case fetch_all_data dl of
        None \<Rightarrow> None
      | Some all_data \<Rightarrow> Some (calculate_technical_indicators ta (primary all_data)))"

text \<open>
  The primary frame as the module builds it: the indicators, then the three auxiliary
  columns, each assigned from a series. The breadth series is the \<^verbatim>\<open>Breadth_Proxy\<close>
  column of \<^verbatim>\<open>calculate_market_breadth(spy_df)\<close>; the credit-spread and yield-curve
  series come from calculators that no property here is about, and are parameters.
\<close>

definition build_primary_df :: "talib \<Rightarrow> bars \<Rightarrow> series \<Rightarrow> series \<Rightarrow> series \<Rightarrow> frame" where
  "build_primary_df ta b breadth junk_spread yield_curve =
     (let primary_df = calculate_technical_indicators ta b;
          primary_df = set_column primary_df ''Breadth'' breadth;
          primary_df = set_column primary_df ''Junk_Spread'' junk_spread;
          primary_df = set_column primary_df ''Yield_Curve'' yield_curve
      in primary_df)"

section \<open>The risk signals\<close>

text \<open>
  A risk is a title with a severity; the titles are named here, and the descriptions
  (formatted text) are left out. \<^verbatim>\<open>identify_risk_signals(row)\<close> reads the globals
  \<^verbatim>\<open>primary_df\<close>, \<^verbatim>\<open>vix_series\<close> and \<^verbatim>\<open>pcr_series\<close>, parameters here. Its five rules
  run in order and append to one list; a missing key or label raises.
\<close>

datatype severity = Low | Medium | High

datatype alert =
  ExtremeVolatility | ElevatedVolatility | BreadthExhaustion | DeathCross
  | ExtremeBearish | ExtremeBullish | SevereOverbought | SevereOversold

type_synonym risk = "alert \<times> severity"

definition rule_volatility :: "pyfloat \<Rightarrow> risk list" where
  "rule_volatility vix_val =
     (if py_gt vix_val (Num 35) then [(ExtremeVolatility, High)]
      else if py_gt vix_val (Num 25) then [(ElevatedVolatility, Medium)]
      else [])"

definition rule_breadth_exhaustion :: "frame \<Rightarrow> row \<Rightarrow> error + risk list" where
  "rule_breadth_exhaustion primary_df r =
     (if index primary_df = [] then Inl IndexError
      else if name r = last (index primary_df) then
        (case map_of (columns primary_df) ''Close'' of
           None \<Rightarrow> Inl KeyError
         | Some close \<Rightarrow>
        (case map_of (columns primary_df) ''Breadth'' of
           None \<Rightarrow> Inl KeyError
         | Some breadth \<Rightarrow>
        (case map_of (items r) ''Close'' of
           None \<Rightarrow> Inl KeyError
         | Some current_price \<Rightarrow>
        (case map_of (items r) ''Breadth'' of
           None \<Rightarrow> Inl KeyError
         | Some current_breadth \<Rightarrow>
             (let recent_high = series_max (tail 20 close);
                  recent_breadth_high = series_max (tail 20 breadth)
              in Inr (if py_ge current_price (py_mul recent_high (Num 0.99))
                         \<and> py_lt current_breadth (py_mul recent_breadth_high (Num 0.95))
                      then [(BreadthExhaustion, Medium)] else []))))))
      else Inr [])"

definition rule_death_cross :: "frame \<Rightarrow> row \<Rightarrow> error + risk list" where
  "rule_death_cross primary_df r =
     (case map_of (items r) ''MA_50'' of
        None \<Rightarrow> Inr []
      | Some ma_50 \<Rightarrow>
     (case map_of (items r) ''MA_200'' of
        None \<Rightarrow> Inr []
      | Some ma_200 \<Rightarrow>
          if py_lt ma_50 ma_200 then
            (case get_loc (index primary_df) (name r) of
               None \<Rightarrow> Inl KeyError
             | Some pos \<Rightarrow>
                 if 0 < pos then
                   (let prev_idx = index primary_df ! (pos - 1) in
                    case frame_loc primary_df prev_idx ''MA_50'' of
                      Inl e \<Rightarrow> Inl e
                    | Inr prev_50 \<Rightarrow>
                   (case frame_loc primary_df prev_idx ''MA_200'' of
                      Inl e \<Rightarrow> Inl e
                    | Inr prev_200 \<Rightarrow>
                        Inr (if py_ge prev_50 prev_200 then [(DeathCross, High)] else [])))
                 else Inr [])
          else Inr []))"

definition rule_pcr :: "pyfloat \<Rightarrow> risk list" where
  "rule_pcr pcr_val =
     (if py_gt pcr_val (Num 1.3) then [(ExtremeBearish, Medium)]
      else if py_lt pcr_val (Num 0.6) then [(ExtremeBullish, Medium)]
      else [])"

definition rule_deviation :: "pyfloat \<Rightarrow> risk list" where
  "rule_deviation dev_200 =
     (if py_gt dev_200 (Num 15) then [(SevereOverbought, Medium)]
      else if py_lt dev_200 (Num (- 15)) then [(SevereOversold, Low)]
      else [])"

definition identify_risk_signals :: "frame \<Rightarrow> series \<Rightarrow> series \<Rightarrow> row \<Rightarrow> error + risk list" where
  "identify_risk_signals primary_df vix_series pcr_series r =
     (let vix_val = series_get vix_series (name r) (Num 20);
          pcr_val = series_get pcr_series (name r) (Num 1.0);
          risks = rule_volatility vix_val
      in case rule_breadth_exhaustion primary_df r of
           Inl e \<Rightarrow> Inl e
         | Inr exhaustion \<Rightarrow>
        (case rule_death_cross primary_df r of
           Inl e \<Rightarrow> Inl e
         | Inr cross \<Rightarrow>
             Inr (risks @ exhaustion @ cross @ rule_pcr pcr_val
                  @ rule_deviation (row_get r ''Dev_200'' (Num 0)))))"

text \<open>
  The signals of the row at position \<open>i\<close> of the primary frame, and whether a given
  risk is among them.
\<close>

definition signals_at :: "frame \<Rightarrow> series \<Rightarrow> series \<Rightarrow> nat \<Rightarrow> error + risk list" where
  "signals_at primary_df vix_series pcr_series i =
     identify_risk_signals primary_df vix_series pcr_series (iloc primary_df i)"

definition emits :: "risk \<Rightarrow> error + risk list \<Rightarrow> bool" where
  "emits s res = (case res of Inl e \<Rightarrow> False | Inr risks \<Rightarrow> s \<in> set risks)"

text \<open>
  A frame is well formed when its labels are distinct and every column is as long as
  the index.
\<close>

definition wf_frame :: "frame \<Rightarrow> bool" where
  "wf_frame df =
     (distinct (index df) \<and> list_all (\<lambda>(k, c). length c = length (index df)) (columns df))"

text \<open>
  The trailing maximum of a column over the \<open>w\<close> rows that end at row \<open>i\<close>, row \<open>i\<close>
  included, NaN skipped: what the specification calls the 20-day trailing maximum.
\<close>

definition trailing_max :: "pyfloat list \<Rightarrow> nat \<Rightarrow> nat \<Rightarrow> pyfloat" where
  "trailing_max xs w i = series_max (take w (drop (Suc i - w) xs))"

section \<open>Example inputs\<close>

text \<open>
  Four days on which the 50-day average falls below the 200-day average on the second
  day and stays below.
\<close>

definition crossing_frame :: frame where
  "crossing_frame =
     \<lparr>index = [1, 2, 3, 4],
      columns = [(''Close'', [Num 10, Num 10, Num 10, Num 10]),
                 (''Breadth'', [Num 100, Num 100, Num 100, Num 100]),
                 (''MA_50'', [Num 5, Num 3, Num 2, Num 1]),
                 (''MA_200'', [Num 4, Num 4, Num 4, Num 4])]\<rparr>"

text \<open>
  Three days at the same close, with breadth at 100 on the first day only: the second
  and the third day both meet the numeric conditions of breadth exhaustion.
\<close>

definition exhausted_frame :: frame where
  "exhausted_frame =
     \<lparr>index = [1, 2, 3],
      columns = [(''Close'', [Num 100, Num 100, Num 100]),
                 (''Breadth'', [Num 100, Num 0, Num 0]),
                 (''MA_50'', [NaN, NaN, NaN]),
                 (''MA_200'', [NaN, NaN, NaN])]\<rparr>"

text \<open>
  A history of a single bar, and library functions for such a history: with fewer than
  15 bars \<^verbatim>\<open>talib.ATR\<close> and \<^verbatim>\<open>talib.RSI\<close> return NaN throughout.
\<close>

definition single_bar :: bars where
  "single_bar =
     \<lparr>dates = [1], opens = [100], highs = [100], lows = [100], closes = [100], volumes = [0]\<rparr>"

definition short_talib :: talib where
  "short_talib = \<lparr>ATR = (\<lambda>h l c n. map (\<lambda>x. NaN) c), RSI = (\<lambda>c n. map (\<lambda>x. NaN) c)\<rparr>"

text \<open>
  Fifty bars that close at 1 on the first 49 days and at 2 on the last; no bars at all;
  and a set of downloads around each primary history.
\<close>

definition fifty_bars :: bars where
  "fifty_bars =
     \<lparr>dates = map int [1..<51], opens = replicate 49 1 @ [2], highs = replicate 49 1 @ [2],
      lows = replicate 49 1 @ [2], closes = replicate 49 1 @ [2], volumes = replicate 50 0\<rparr>"

definition no_bars :: bars where
  "no_bars = \<lparr>dates = [], opens = [], highs = [], lows = [], closes = [], volumes = []\<rparr>"

definition empty_downloads :: downloads where
  "empty_downloads =
     \<lparr>ticker_data = no_bars, vix_data = single_bar, hyg_data = single_bar, tlt_data = single_bar,
      spy_data = single_bar\<rparr>"

definition single_bar_downloads :: downloads where
  "single_bar_downloads =
     \<lparr>ticker_data = single_bar, vix_data = single_bar, hyg_data = single_bar,
      tlt_data = single_bar, spy_data = single_bar\<rparr>"

section \<open>Properties of the composite score\<close>

lemma py_add_NaN_right [simp]: "py_add x NaN = NaN"
  by (cases x) simp_all

lemma py_sub_NaN [simp]: "py_sub NaN x = NaN" "py_sub x NaN = NaN"
  by (simp_all add: py_sub_def)

lemma py_mul_NaN_right [simp]: "py_mul x NaN = NaN"
  by (cases x) simp_all

lemma py_div_NaN_right [simp]: "py_div x NaN = NaN"
  by (cases x) simp_all

lemma py_lt_NaN_right [simp]: "py_lt x NaN = False"
  by (cases x) simp_all

lemma py_ge_NaN_right [simp]: "py_ge x NaN = False"
  by (cases x) simp_all

lemma py_gt_NaN [simp]: "py_gt NaN x = False" "py_gt x NaN = False"
  by (simp_all add: py_gt_def)

text \<open>The final \<^verbatim>\<open>max(0, min(100, score))\<close>, whatever the score.\<close>

lemma clamp_range:
  "\<exists>x. py_max (Num 0) (py_min (Num 100) s) = Num x \<and> 0 \<le> x \<and> x \<le> 100"
  by (cases s) (auto simp: py_max_def py_min_def py_gt_def)

lemma clamp_NaN: "py_max (Num 0) (py_min (Num 100) NaN) = Num 100"
  by (simp add: py_max_def py_min_def py_gt_def)

text \<open>
  Each block of the score turns a NaN running score into NaN, and turns any running
  score into NaN when the value it reads is NaN: both comparisons fail, and the third
  branch does arithmetic on the NaN.
\<close>

lemma score_deviation_NaN: "score_deviation NaN v = NaN" "score_deviation s NaN = NaN"
  by (simp_all add: score_deviation_def)

lemma score_vix_NaN: "score_vix NaN v = NaN" "score_vix s NaN = NaN"
  by (simp_all add: score_vix_def)

lemma score_breadth_NaN: "score_breadth NaN v = NaN" "score_breadth s NaN = NaN"
  by (simp_all add: score_breadth_def)

lemma score_spread_NaN: "score_spread NaN v = NaN" "score_spread s NaN = NaN"
  by (simp_all add: score_spread_def)

lemma score_yield_NaN: "score_yield NaN v = NaN" "score_yield s NaN = NaN"
  by (simp_all add: score_yield_def)

lemma score_pcr_NaN: "score_pcr NaN v = NaN" "score_pcr s NaN = NaN"
  by (simp_all add: score_pcr_def)

lemma score_momentum_NaN: "score_momentum NaN v = NaN" "score_momentum s NaN = NaN"
  by (simp_all add: score_momentum_def)

lemmas score_NaN =
  score_deviation_NaN score_vix_NaN score_breadth_NaN score_spread_NaN score_yield_NaN
  score_pcr_NaN score_momentum_NaN

lemma dev_avg_NaN:
  assumes "map_of (items r) ''Dev_50'' = Some NaN \<or> map_of (items r) ''Dev_100'' = Some NaN
           \<or> map_of (items r) ''Dev_200'' = Some NaN"
  shows "dev_avg r = NaN"
  using assms by (auto simp: dev_avg_def row_get_def)

lemma score_of_NaN_item:
  assumes "row_get r ''Breadth'' (Num 50) = NaN \<or> row_get r ''Junk_Spread'' (Num 0) = NaN
           \<or> row_get r ''Yield_Curve'' (Num 0) = NaN \<or> row_get r ''Momentum_5D'' (Num 0) = NaN
           \<or> dev_avg r = NaN"
  shows "calculate_composite_score vix_series pcr_series r = Num 100"
  using assms
  by (auto simp: calculate_composite_score_def score_NaN clamp_NaN)

lemma row_get_present: "map_of (items r) k = Some v \<Longrightarrow> row_get r k d = v"
  by (simp add: row_get_def)

lemma score_of_NaN_row_item:
  assumes "k \<in> set consumed_fields" and "map_of (items r) k = Some NaN"
  shows "calculate_composite_score vix_series pcr_series r = Num 100"
proof -
  from assms(1) have "k = ''Dev_50'' \<or> k = ''Dev_100'' \<or> k = ''Dev_200'' \<or> k = ''Breadth''
      \<or> k = ''Junk_Spread'' \<or> k = ''Yield_Curve'' \<or> k = ''Momentum_5D''"
    unfolding consumed_fields_def by simp
  then show ?thesis
  proof (elim disjE)
    assume "k = ''Dev_50''"
    with assms(2) have "dev_avg r = NaN" by (intro dev_avg_NaN) simp
    then show ?thesis by (intro score_of_NaN_item) simp
  next
    assume "k = ''Dev_100''"
    with assms(2) have "dev_avg r = NaN" by (intro dev_avg_NaN) simp
    then show ?thesis by (intro score_of_NaN_item) simp
  next
    assume "k = ''Dev_200''"
    with assms(2) have "dev_avg r = NaN" by (intro dev_avg_NaN) simp
    then show ?thesis by (intro score_of_NaN_item) simp
  next
    assume "k = ''Breadth''"
    with assms(2) have "row_get r ''Breadth'' (Num 50) = NaN" by (simp add: row_get_present)
    then show ?thesis by (intro score_of_NaN_item) simp
  next
    assume "k = ''Junk_Spread''"
    with assms(2) have "row_get r ''Junk_Spread'' (Num 0) = NaN" by (simp add: row_get_present)
    then show ?thesis by (intro score_of_NaN_item) simp
  next
    assume "k = ''Yield_Curve''"
    with assms(2) have "row_get r ''Yield_Curve'' (Num 0) = NaN" by (simp add: row_get_present)
    then show ?thesis by (intro score_of_NaN_item) simp
  next
    assume "k = ''Momentum_5D''"
    with assms(2) have "row_get r ''Momentum_5D'' (Num 0) = NaN" by (simp add: row_get_present)
    then show ?thesis by (intro score_of_NaN_item) simp
  qed
qed

lemma score_of_NaN_series_value:
  assumes "map_of vix_series (name r) = Some NaN \<or> map_of pcr_series (name r) = Some NaN"
  shows "calculate_composite_score vix_series pcr_series r = Num 100"
  using assms
  by (auto simp: calculate_composite_score_def series_get_def score_NaN clamp_NaN)

lemma score_at_defaults:
  assumes "dev_avg r = Num 0"
    and "series_get vix_series (name r) (Num 20) = Num 20"
    and "row_get r ''Breadth'' (Num 50) = Num 50"
    and "row_get r ''Junk_Spread'' (Num 0) = Num 0"
    and "row_get r ''Yield_Curve'' (Num 0) = Num 0"
    and "series_get pcr_series (name r) (Num 1.0) = Num 1.0"
    and "row_get r ''Momentum_5D'' (Num 0) = Num 0"
  shows "calculate_composite_score vix_series pcr_series r = Num (200 / 3)"
  unfolding calculate_composite_score_def Let_def assms
  by (simp add: score_deviation_def score_vix_def score_breadth_def score_spread_def
      score_yield_def score_pcr_def score_momentum_def py_gt_def py_sub_def py_max_def
      py_min_def)

text \<open>
  Claim C1, as the code has it. A row in which every one of the seven sub-signals takes
  its neutral default (average deviation 0, volatility index 20, breadth 50, credit
  spread 0, yield curve 0, sentiment ratio 1.0, momentum 0) does not score the baseline
  50: a deviation of 0 lies in the band (-2, 5) and earns +10, and a volatility index of
  20 earns (30 - 20) / 1.5, so the score is 50 + 10 + (30 - 20) / 1.5 = 200 / 3, about
  66.67. The other five blocks add 0.
\<close>

theorem composite_score_at_defaults:
  assumes "dev_avg r = Num 0"
    and "series_get vix_series (name r) (Num 20) = Num 20"
    and "row_get r ''Breadth'' (Num 50) = Num 50"
    and "row_get r ''Junk_Spread'' (Num 0) = Num 0"
    and "row_get r ''Yield_Curve'' (Num 0) = Num 0"
    and "series_get pcr_series (name r) (Num 1.0) = Num 1.0"
    and "row_get r ''Momentum_5D'' (Num 0) = Num 0"
  shows "calculate_composite_score vix_series pcr_series r = Num (50 + 10 + (30 - 20) / 1.5)"
proof -
  have "(50 + 10 + (30 - 20) / 1.5 :: real) = 200 / 3"
    by simp
  with score_at_defaults [OF assms] show ?thesis
    by simp
qed

text \<open>
  The witness: a row with no items and two empty series, so that every \<^verbatim>\<open>get\<close>
  returns its default.
\<close>

theorem composite_score_at_defaults_witness:
  "dev_avg \<lparr>name = 0, items = []\<rparr> = Num 0
   \<and> series_get [] (name \<lparr>name = 0, items = []\<rparr>) (Num 20) = Num 20
   \<and> row_get \<lparr>name = 0, items = []\<rparr> ''Breadth'' (Num 50) = Num 50
   \<and> series_get [] (name \<lparr>name = 0, items = []\<rparr>) (Num 1.0) = Num 1.0
   \<and> calculate_composite_score [] [] \<lparr>name = 0, items = []\<rparr> = Num (50 + 10 + (30 - 20) / 1.5)"
  using composite_score_at_defaults [of "\<lparr>name = 0, items = []\<rparr>" "[]" "[]"]
  by (simp add: dev_avg_def row_get_def series_get_def)

text \<open>
  The claim C1 as the specification states it (the score of such a row is exactly 50)
  fails on the row with no items: all seven defaults are used, and the score is not 50.
\<close>

theorem composite_score_at_defaults_not_50:
  "dev_avg \<lparr>name = 0, items = []\<rparr> = Num 0
   \<and> series_get [] 0 (Num 20) = Num 20
   \<and> row_get \<lparr>name = 0, items = []\<rparr> ''Breadth'' (Num 50) = Num 50
   \<and> row_get \<lparr>name = 0, items = []\<rparr> ''Junk_Spread'' (Num 0) = Num 0
   \<and> row_get \<lparr>name = 0, items = []\<rparr> ''Yield_Curve'' (Num 0) = Num 0
   \<and> series_get [] 0 (Num 1.0) = Num 1.0
   \<and> row_get \<lparr>name = 0, items = []\<rparr> ''Momentum_5D'' (Num 0) = Num 0
   \<and> calculate_composite_score [] [] \<lparr>name = 0, items = []\<rparr> \<noteq> Num 50"
proof -
  have "calculate_composite_score [] [] \<lparr>name = 0, items = []\<rparr> = Num (200 / 3)"
    by (rule score_at_defaults) (simp_all add: dev_avg_def row_get_def series_get_def)
  then show ?thesis
    by (simp add: dev_avg_def row_get_def series_get_def)
qed

text \<open>
  Claim C2. Whatever the row and the two series hold (finite numbers of any magnitude,
  infinities, NaN, or nothing at all), the value returned by
  \<^verbatim>\<open>calculate_composite_score\<close> is a finite number in the closed interval [0, 100].
\<close>

theorem composite_score_in_range:
  "\<exists>x. calculate_composite_score vix_series pcr_series r = Num x \<and> 0 \<le> x \<and> x \<le> 100"
  unfolding calculate_composite_score_def Let_def by (rule clamp_range)

text \<open>
  Claim C3. When one of the consumed row items (Dev_50, Dev_100, Dev_200, Breadth,
  Junk_Spread, Yield_Curve, Momentum_5D) is present in the row with the value NaN, or the
  volatility or sentiment series holds NaN at the row's date, the score returned is
  exactly 100: the key exists, so \<^verbatim>\<open>get\<close> does not return the default, NaN passes
  through the sum, and \<^verbatim>\<open>max(0, min(100, NaN))\<close> is 100.
\<close>

theorem composite_score_of_NaN:
  assumes "(\<exists>k \<in> set consumed_fields. map_of (items r) k = Some NaN)
           \<or> map_of vix_series (name r) = Some NaN
           \<or> map_of pcr_series (name r) = Some NaN"
  shows "calculate_composite_score vix_series pcr_series r = Num 100"
  using assms score_of_NaN_row_item [of _ r vix_series pcr_series]
    score_of_NaN_series_value [of vix_series r pcr_series]
  by blast

theorem composite_score_of_NaN_witness:
  "(\<exists>k. k \<in> set consumed_fields \<and> map_of (items \<lparr>name = 3, items = [(''Dev_200'', NaN)]\<rparr>) k = Some NaN)
   \<and> calculate_composite_score [(3, Num 12)] [] \<lparr>name = 3, items = [(''Dev_200'', NaN)]\<rparr> = Num 100"
proof -
  have k: "''Dev_200'' \<in> set consumed_fields"
    by (simp add: consumed_fields_def)
  have v: "map_of (items \<lparr>name = 3, items = [(''Dev_200'', NaN)]\<rparr>) ''Dev_200'' = Some NaN"
    by simp
  from k v have h: "\<exists>k \<in> set consumed_fields.
      map_of (items \<lparr>name = 3, items = [(''Dev_200'', NaN)]\<rparr>) k = Some NaN"
    by blast
  have "calculate_composite_score [(3, Num 12)] [] \<lparr>name = 3, items = [(''Dev_200'', NaN)]\<rparr> = Num 100"
    by (rule composite_score_of_NaN) (use h in blast)
  with k v show ?thesis
    by blast
qed

lemma vix_examples:
  "calculate_composite_score [(d, Num 40)] [] \<lparr>name = d, items = []\<rparr> = Num 50"
  "calculate_composite_score [(d, Num 10)] [] \<lparr>name = d, items = []\<rparr> = Num 70"
  by (simp_all add: calculate_composite_score_def dev_avg_def row_get_def series_get_def
      score_deviation_def score_vix_def score_breadth_def score_spread_def score_yield_def
      score_pcr_def score_momentum_def py_gt_def py_sub_def py_max_def py_min_def)

text \<open>
  Claim C9. The volatility block changes the running score by exactly -10 when the
  volatility index is 40, by exactly +10 when it is 10, and by (30 - 20) / 1.5 = 20 / 3
  (6.667 to three decimals) when it is 20; in general by +10 below 16, by -10 above 30,
  and by (30 - vix) / 1.5 otherwise. On a row whose other signals are at their defaults
  the whole score is accordingly 50 + 10 - 10 at 40 and 50 + 10 + 10 at 10.
\<close>

theorem vix_adjustment:
  "score_vix (Num s) (Num 40) = Num (s - 10)
   \<and> score_vix (Num s) (Num 10) = Num (s + 10)
   \<and> score_vix (Num s) (Num 20) = Num (s + (30 - 20) / 1.5)
   \<and> \<bar>(30 - 20) / 1.5 - 6.667\<bar> < (0.001 :: real)
   \<and> score_vix (Num s) (Num v) =
       Num (s + (if v < 16 then 10 else if 30 < v then - 10 else (30 - v) / 1.5))
   \<and> calculate_composite_score [(d, Num 40)] [] \<lparr>name = d, items = []\<rparr> = Num (50 + 10 - 10)
   \<and> calculate_composite_score [(d, Num 10)] [] \<lparr>name = d, items = []\<rparr> = Num (50 + 10 + 10)"
proof -
  have block: "score_vix (Num s) (Num x) =
      Num (s + (if x < 16 then 10 else if 30 < x then - 10 else (30 - x) / 1.5))" for x
    by (simp add: score_vix_def py_gt_def py_sub_def)
  have "score_vix (Num s) (Num 40) = Num (s - 10)"
    and "score_vix (Num s) (Num 10) = Num (s + 10)"
    and "score_vix (Num s) (Num 20) = Num (s + (30 - 20) / 1.5)"
    by (simp_all add: block)
  moreover have "\<bar>(30 - 20) / 1.5 - 6.667\<bar> < (0.001 :: real)"
    by simp
  ultimately show ?thesis
    using block [of v] vix_examples [of d] by simp
qed

section \<open>Properties of the risk signals\<close>

text \<open>The row at a position of a well-formed frame: its items, its date, its position.\<close>

lemma map_of_iloc:
  "map_of (items (iloc df i)) k = map_option (\<lambda>c. c ! i) (map_of (columns df) k)"
proof -
  have "map_of (map (\<lambda>(k, c). (k, c ! i)) cols) k = map_option (\<lambda>c. c ! i) (map_of cols k)" for cols
    by (induction cols) auto
  then show ?thesis by (simp add: iloc_def)
qed

lemma name_iloc [simp]: "name (iloc df i) = index df ! i"
  by (simp add: iloc_def)

lemma get_loc_nth: "distinct xs \<Longrightarrow> i < length xs \<Longrightarrow> get_loc xs (xs ! i) = Some i"
proof (induction xs arbitrary: i)
  case Nil
  then show ?case by simp
next
  case (Cons x xs)
  show ?case
  proof (cases i)
    case 0
    then show ?thesis by simp
  next
    case (Suc j)
    with Cons.prems have "xs ! j \<in> set xs" "x \<notin> set xs" by auto
    then have "x \<noteq> xs ! j" by auto
    with Cons Suc show ?thesis by auto
  qed
qed

lemma last_is_row: "distinct xs \<Longrightarrow> i < length xs \<Longrightarrow> (xs ! i = last xs) = (Suc i = length xs)"
  by (cases "xs = []") (auto simp: last_conv_nth nth_eq_iff_index_eq)

lemma py_lt_not_ge: "py_lt a b \<Longrightarrow> \<not> py_ge a b"
  by (cases a; cases b) auto

lemma rule_death_cross_row:
  assumes "wf_frame df" and "i < length (index df)"
    and "map_of (columns df) ''MA_50'' = Some ma_50"
    and "map_of (columns df) ''MA_200'' = Some ma_200"
  shows "rule_death_cross df (iloc df i) =
     Inr (if py_lt (ma_50 ! i) (ma_200 ! i) \<and> 0 < i \<and> py_ge (ma_50 ! (i - 1)) (ma_200 ! (i - 1))
          then [(DeathCross, High)] else [])"
proof -
  from assms(1,2) have loc: "get_loc (index df) (index df ! i) = Some i"
    by (simp add: wf_frame_def get_loc_nth)
  from assms(1,2) have prev: "0 < i \<Longrightarrow> get_loc (index df) (index df ! (i - 1)) = Some (i - 1)"
    by (simp add: wf_frame_def get_loc_nth)
  show ?thesis
    using assms(3,4) loc prev
    by (simp add: rule_death_cross_def map_of_iloc frame_loc_def)
qed

lemma rule_breadth_exhaustion_row:
  assumes "wf_frame df" and "i < length (index df)"
    and "map_of (columns df) ''Close'' = Some close"
    and "map_of (columns df) ''Breadth'' = Some breadth"
  shows "rule_breadth_exhaustion df (iloc df i) =
     Inr (if Suc i = length (index df)
             \<and> py_ge (close ! i) (py_mul (trailing_max close 20 i) (Num 0.99))
             \<and> py_lt (breadth ! i) (py_mul (trailing_max breadth 20 i) (Num 0.95))
          then [(BreadthExhaustion, Medium)] else [])"
proof -
  from assms(2) have ne: "index df \<noteq> []" by auto
  from assms(1,2) have last: "(index df ! i = last (index df)) = (Suc i = length (index df))"
    by (simp add: wf_frame_def last_is_row)
  from assms(1,3) have lc: "length close = length (index df)"
    by (auto simp: wf_frame_def list_all_iff dest!: map_of_SomeD)
  from assms(1,4) have lb: "length breadth = length (index df)"
    by (auto simp: wf_frame_def list_all_iff dest!: map_of_SomeD)
  show ?thesis
  proof (cases "Suc i = length (index df)")
    case True
    then have "length (index df) - 20 = i - 19" by arith
    with True ne last assms(3,4) lc lb show ?thesis
      by (simp add: rule_breadth_exhaustion_def map_of_iloc trailing_max_def tail_def)
  next
    case False
    with ne last show ?thesis
      by (simp add: rule_breadth_exhaustion_def)
  qed
qed

lemma signals_at_row:
  assumes "wf_frame df" and "i < length (index df)"
    and "map_of (columns df) ''Close'' = Some close"
    and "map_of (columns df) ''Breadth'' = Some breadth"
    and "map_of (columns df) ''MA_50'' = Some ma_50"
    and "map_of (columns df) ''MA_200'' = Some ma_200"
  shows "\<exists>risks. signals_at df vix_series pcr_series i = Inr risks"
  by (simp add: signals_at_def identify_risk_signals_def
      rule_breadth_exhaustion_row [OF assms(1,2,3,4)] rule_death_cross_row [OF assms(1,2,5,6)])

lemma rule_lists [simp]:
  "(DeathCross, High) \<notin> set (rule_volatility v)" "(DeathCross, High) \<notin> set (rule_pcr v)"
  "(DeathCross, High) \<notin> set (rule_deviation v)"
  "(BreadthExhaustion, Medium) \<notin> set (rule_volatility v)" "(BreadthExhaustion, Medium) \<notin> set (rule_pcr v)"
  "(BreadthExhaustion, Medium) \<notin> set (rule_deviation v)"
  by (simp_all add: rule_volatility_def rule_pcr_def rule_deviation_def)

lemma death_cross_emitted:
  assumes "wf_frame df" and "i < length (index df)"
    and "map_of (columns df) ''Close'' = Some close"
    and "map_of (columns df) ''Breadth'' = Some breadth"
    and "map_of (columns df) ''MA_50'' = Some ma_50"
    and "map_of (columns df) ''MA_200'' = Some ma_200"
  shows "emits (DeathCross, High) (signals_at df vix_series pcr_series i) =
     (py_lt (ma_50 ! i) (ma_200 ! i) \<and> 0 < i \<and> py_ge (ma_50 ! (i - 1)) (ma_200 ! (i - 1)))"
  by (simp add: signals_at_def identify_risk_signals_def emits_def
      rule_breadth_exhaustion_row [OF assms(1,2,3,4)] rule_death_cross_row [OF assms(1,2,5,6)])

lemma breadth_exhaustion_emitted:
  assumes "wf_frame df" and "i < length (index df)"
    and "map_of (columns df) ''Close'' = Some close"
    and "map_of (columns df) ''Breadth'' = Some breadth"
    and "map_of (columns df) ''MA_50'' = Some ma_50"
    and "map_of (columns df) ''MA_200'' = Some ma_200"
  shows "emits (BreadthExhaustion, Medium) (signals_at df vix_series pcr_series i) =
     (Suc i = length (index df)
      \<and> py_ge (close ! i) (py_mul (trailing_max close 20 i) (Num 0.99))
      \<and> py_lt (breadth ! i) (py_mul (trailing_max breadth 20 i) (Num 0.95)))"
  by (simp add: signals_at_def identify_risk_signals_def emits_def
      rule_breadth_exhaustion_row [OF assms(1,2,3,4)] rule_death_cross_row [OF assms(1,2,5,6)])

text \<open>
  Claim C5. On the rows of a well-formed primary frame, the death-cross rule emits its
  high-severity signal for a row if and only if the 50-day average is below the 200-day
  average at that row, the row is not the first, and the 50-day average is at or above
  the 200-day average at the row before. So over any run of consecutive rows on which
  the 50-day average stays below the 200-day average, the signal is emitted on no row
  after the first of the run. No row raises an error.
\<close>

theorem death_cross_on_transition_only:
  assumes "wf_frame df"
    and "map_of (columns df) ''Close'' = Some close"
    and "map_of (columns df) ''Breadth'' = Some breadth"
    and "map_of (columns df) ''MA_50'' = Some ma_50"
    and "map_of (columns df) ''MA_200'' = Some ma_200"
  shows "(\<forall>i<length (index df).
            (\<exists>risks. signals_at df vix_series pcr_series i = Inr risks)
            \<and> (emits (DeathCross, High) (signals_at df vix_series pcr_series i)
                 \<longleftrightarrow> py_lt (ma_50 ! i) (ma_200 ! i) \<and> 0 < i
                      \<and> py_ge (ma_50 ! (i - 1)) (ma_200 ! (i - 1))))
    \<and> (\<forall>j k. k < length (index df) \<and> (\<forall>m. j \<le> m \<and> m \<le> k \<longrightarrow> py_lt (ma_50 ! m) (ma_200 ! m))
          \<longrightarrow> (\<forall>m. j < m \<and> m \<le> k
                \<longrightarrow> \<not> emits (DeathCross, High) (signals_at df vix_series pcr_series m)))"
proof (intro conjI allI impI)
  fix i assume "i < length (index df)"
  with assms show "\<exists>risks. signals_at df vix_series pcr_series i = Inr risks"
    by (intro signals_at_row)
next
  fix i assume "i < length (index df)"
  with assms show "emits (DeathCross, High) (signals_at df vix_series pcr_series i)
      \<longleftrightarrow> py_lt (ma_50 ! i) (ma_200 ! i) \<and> 0 < i \<and> py_ge (ma_50 ! (i - 1)) (ma_200 ! (i - 1))"
    by (intro death_cross_emitted)
next
  fix j k m
  assume a: "k < length (index df) \<and> (\<forall>m. j \<le> m \<and> m \<le> k \<longrightarrow> py_lt (ma_50 ! m) (ma_200 ! m))"
    and m: "j < m \<and> m \<le> k"
  then have "py_lt (ma_50 ! (m - 1)) (ma_200 ! (m - 1))"
    by (auto intro: a [THEN conjunct2, rule_format])
  then have "\<not> py_ge (ma_50 ! (m - 1)) (ma_200 ! (m - 1))"
    by (rule py_lt_not_ge)
  moreover from a m have "m < length (index df)" by simp
  ultimately show "\<not> emits (DeathCross, High) (signals_at df vix_series pcr_series m)"
    using death_cross_emitted [OF assms(1) _ assms(2-5), of m vix_series pcr_series] by simp
qed

lemma crossing_frame_wf: "wf_frame crossing_frame"
  by (simp add: wf_frame_def crossing_frame_def)

theorem death_cross_on_transition_only_witness:
  "wf_frame crossing_frame
   \<and> \<not> emits (DeathCross, High) (signals_at crossing_frame [] [] 0)
   \<and> emits (DeathCross, High) (signals_at crossing_frame [] [] 1)
   \<and> \<not> emits (DeathCross, High) (signals_at crossing_frame [] [] 2)
   \<and> \<not> emits (DeathCross, High) (signals_at crossing_frame [] [] 3)"
proof -
  have c: "map_of (columns crossing_frame) ''Close'' = Some [Num 10, Num 10, Num 10, Num 10]"
    "map_of (columns crossing_frame) ''Breadth'' = Some [Num 100, Num 100, Num 100, Num 100]"
    "map_of (columns crossing_frame) ''MA_50'' = Some [Num 5, Num 3, Num 2, Num 1]"
    "map_of (columns crossing_frame) ''MA_200'' = Some [Num 4, Num 4, Num 4, Num 4]"
    by (simp_all add: crossing_frame_def)
  note t = death_cross_on_transition_only [OF crossing_frame_wf c, of "[]" "[]",
      THEN conjunct1, rule_format, THEN conjunct2]
  have l: "length (index crossing_frame) = 4"
    by (simp add: crossing_frame_def)
  have "\<not> emits (DeathCross, High) (signals_at crossing_frame [] [] 0)"
    using t [of 0] l by simp
  moreover have "emits (DeathCross, High) (signals_at crossing_frame [] [] 1)"
    using t [of 1] l by simp
  moreover have "\<not> emits (DeathCross, High) (signals_at crossing_frame [] [] 2)"
    using t [of 2] l by simp
  moreover have "\<not> emits (DeathCross, High) (signals_at crossing_frame [] [] 3)"
    using t [of 3] l by simp
  ultimately show ?thesis
    using crossing_frame_wf by simp
qed

text \<open>
  Claim C8. On the rows of a well-formed primary frame, the breadth-exhaustion rule
  emits its medium-severity signal for a row if and only if the row is the last of the
  frame, its close is at least 0.99 times the maximum close of the 20 rows that end with
  it, and its breadth is below 0.95 times the maximum breadth of those rows; for an
  earlier row the signal is never emitted, whatever its numbers.
\<close>

theorem breadth_exhaustion_latest_row_only:
  assumes "wf_frame df"
    and "map_of (columns df) ''Close'' = Some close"
    and "map_of (columns df) ''Breadth'' = Some breadth"
    and "map_of (columns df) ''MA_50'' = Some ma_50"
    and "map_of (columns df) ''MA_200'' = Some ma_200"
  shows "\<forall>i<length (index df).
            (\<exists>risks. signals_at df vix_series pcr_series i = Inr risks)
            \<and> (emits (BreadthExhaustion, Medium) (signals_at df vix_series pcr_series i)
                 \<longleftrightarrow> Suc i = length (index df)
                      \<and> py_ge (close ! i) (py_mul (trailing_max close 20 i) (Num 0.99))
                      \<and> py_lt (breadth ! i) (py_mul (trailing_max breadth 20 i) (Num 0.95)))
            \<and> (Suc i < length (index df)
                 \<longrightarrow> \<not> emits (BreadthExhaustion, Medium) (signals_at df vix_series pcr_series i))"
proof (intro allI impI conjI)
  fix i assume "i < length (index df)"
  with assms show "\<exists>risks. signals_at df vix_series pcr_series i = Inr risks"
    by (intro signals_at_row)
next
  fix i assume "i < length (index df)"
  with assms show "emits (BreadthExhaustion, Medium) (signals_at df vix_series pcr_series i)
      \<longleftrightarrow> Suc i = length (index df)
          \<and> py_ge (close ! i) (py_mul (trailing_max close 20 i) (Num 0.99))
          \<and> py_lt (breadth ! i) (py_mul (trailing_max breadth 20 i) (Num 0.95))"
    by (intro breadth_exhaustion_emitted)
next
  fix i assume "i < length (index df)" and "Suc i < length (index df)"
  with assms show "\<not> emits (BreadthExhaustion, Medium) (signals_at df vix_series pcr_series i)"
    using breadth_exhaustion_emitted [OF assms(1) _ assms(2-5), of i vix_series pcr_series] by simp
qed

lemma exhausted_frame_wf: "wf_frame exhausted_frame"
  by (simp add: wf_frame_def exhausted_frame_def)

theorem breadth_exhaustion_latest_row_only_witness:
  "wf_frame exhausted_frame
   \<and> emits (BreadthExhaustion, Medium) (signals_at exhausted_frame [] [] 2)
   \<and> \<not> emits (BreadthExhaustion, Medium) (signals_at exhausted_frame [] [] 1)
   \<and> py_ge (Num 100) (py_mul (trailing_max [Num 100, Num 100, Num 100] 20 1) (Num 0.99))
   \<and> py_lt (Num 0) (py_mul (trailing_max [Num 100, Num 0, Num 0] 20 1) (Num 0.95))"
proof -
  have c: "map_of (columns exhausted_frame) ''Close'' = Some [Num 100, Num 100, Num 100]"
    "map_of (columns exhausted_frame) ''Breadth'' = Some [Num 100, Num 0, Num 0]"
    "map_of (columns exhausted_frame) ''MA_50'' = Some [NaN, NaN, NaN]"
    "map_of (columns exhausted_frame) ''MA_200'' = Some [NaN, NaN, NaN]"
    by (simp_all add: exhausted_frame_def)
  note t = breadth_exhaustion_latest_row_only [OF exhausted_frame_wf c, of "[]" "[]", rule_format]
  have l: "length (index exhausted_frame) = 3"
    by (simp add: exhausted_frame_def)
  have m: "trailing_max [Num 100, Num 100, Num 100] 20 2 = Num 100"
    "trailing_max [Num 100, Num 0, Num 0] 20 2 = Num 100"
    "trailing_max [Num 100, Num 100, Num 100] 20 1 = Num 100"
    "trailing_max [Num 100, Num 0, Num 0] 20 1 = Num 100"
    by (simp_all add: trailing_max_def series_max_def py_gt_def)
  have "emits (BreadthExhaustion, Medium) (signals_at exhausted_frame [] [] 2)"
    using t [of 2, THEN conjunct2, THEN conjunct1] l m by simp
  moreover have "\<not> emits (BreadthExhaustion, Medium) (signals_at exhausted_frame [] [] 1)"
    using t [of 1, THEN conjunct2, THEN conjunct2] l by simp
  ultimately show ?thesis
    using exhausted_frame_wf m by simp
qed

section \<open>Properties of the alignment\<close>

lemma length_ffill_values [simp]: "length (ffill_values p vs) = length vs"
  by (induction vs arbitrary: p) auto

lemma take_ffill_values: "take n (ffill_values p vs) = ffill_values p (take n vs)"
proof (induction vs arbitrary: p n)
  case Nil
  then show ?case by simp
next
  case (Cons v vs)
  then show ?case by (cases n) auto
qed

lemma ffill_values_observed:
  "i < length vs \<Longrightarrow> vs ! i \<noteq> NaN \<Longrightarrow> ffill_values p vs ! i = vs ! i"
proof (induction vs arbitrary: p i)
  case Nil
  then show ?case by simp
next
  case (Cons v vs)
  then show ?case by (cases i) auto
qed

lemma ffill_values_leading:
  "i < length vs \<Longrightarrow> (\<forall>k\<le>i. vs ! k = NaN) \<Longrightarrow> ffill_values p vs ! i = p"
proof (induction vs arbitrary: p i)
  case Nil
  then show ?case by simp
next
  case (Cons v vs)
  show ?case
  proof (cases i)
    case 0
    with Cons.prems show ?thesis by auto
  next
    case (Suc i')
    from Cons.prems(2) have "v = NaN" by force
    moreover from Cons.prems(2) Suc have "\<forall>k\<le>i'. vs ! k = NaN" by force
    ultimately show ?thesis using Cons.IH [of i' p] Cons.prems(1) Suc by simp
  qed
qed

lemma ffill_values_carried:
  "j < i \<Longrightarrow> i < length vs \<Longrightarrow> vs ! j \<noteq> NaN \<Longrightarrow> (\<forall>k. j < k \<and> k \<le> i \<longrightarrow> vs ! k = NaN)
     \<Longrightarrow> ffill_values p vs ! i = vs ! j"
proof (induction vs arbitrary: p i j)
  case Nil
  then show ?case by simp
next
  case (Cons v vs)
  from Cons.prems(1) obtain i' where i: "i = Suc i'" by (cases i) auto
  show ?case
  proof (cases j)
    case 0
    with Cons.prems have v: "v \<noteq> NaN" by simp
    from Cons.prems(4) 0 i have "\<forall>k\<le>i'. vs ! k = NaN" by force
    with Cons.prems(2) i have "ffill_values v vs ! i' = v"
      by (intro ffill_values_leading) auto
    with v 0 i show ?thesis by simp
  next
    case (Suc j')
    from Cons.prems(4) Suc i have "\<forall>k. j' < k \<and> k \<le> i' \<longrightarrow> vs ! k = NaN" by force
    with Cons.prems Suc i have "ffill_values q vs ! i' = vs ! j'" for q
      by (intro Cons.IH) auto
    with Suc i show ?thesis by simp
  qed
qed

lemma length_reindex [simp]: "length (reindex s idx) = length idx"
  by (simp add: reindex_def)

lemma reindex_values:
  "map snd (reindex s idx) = map (\<lambda>d. case map_of s d of None \<Rightarrow> NaN | Some v \<Rightarrow> v) idx"
  by (simp add: reindex_def comp_def)

lemma reindex_nth:
  "i < length idx \<Longrightarrow> snd (reindex s idx ! i) = (case map_of s (idx ! i) of None \<Rightarrow> NaN | Some v \<Rightarrow> v)"
  by (simp add: reindex_def)

lemma reindex_nth_NaN:
  "i < length idx \<Longrightarrow> (snd (reindex s idx ! i) = NaN) = unobserved s (idx ! i)"
  by (simp add: reindex_nth unobserved_def split: option.splits)

lemma aligned_value:
  "i < length idx \<Longrightarrow> snd (reindex_ffill s idx ! i) = ffill_values NaN (map snd (reindex s idx)) ! i"
  by (simp add: reindex_ffill_def ffill_def)

lemma aligned_observed:
  assumes "i < length idx" and "snd (reindex s idx ! i) \<noteq> NaN"
  shows "snd (reindex_ffill s idx ! i) = snd (reindex s idx ! i)"
proof -
  from assms have "map snd (reindex s idx) ! i \<noteq> NaN" by simp
  with assms(1) have "ffill_values NaN (map snd (reindex s idx)) ! i = map snd (reindex s idx) ! i"
    by (intro ffill_values_observed) simp_all
  with assms(1) show ?thesis by (simp add: aligned_value)
qed

lemma aligned_carried:
  assumes "i < length idx" and "j < i" and "snd (reindex s idx ! j) \<noteq> NaN"
    and "\<forall>k. j < k \<and> k \<le> i \<longrightarrow> snd (reindex s idx ! k) = NaN"
  shows "snd (reindex_ffill s idx ! i) = snd (reindex s idx ! j)"
proof -
  let ?vs = "map snd (reindex s idx)"
  from assms(1,2,3) have "?vs ! j \<noteq> NaN" by simp
  moreover from assms(1,4) have "\<forall>k. j < k \<and> k \<le> i \<longrightarrow> ?vs ! k = NaN" by simp
  ultimately have "ffill_values NaN ?vs ! i = ?vs ! j"
    using assms(1,2) by (intro ffill_values_carried) simp_all
  with assms(1,2) show ?thesis by (simp add: aligned_value)
qed

lemma aligned_leading:
  assumes "i < length idx" and "\<forall>k\<le>i. snd (reindex s idx ! k) = NaN"
  shows "snd (reindex_ffill s idx ! i) = NaN"
proof -
  let ?vs = "map snd (reindex s idx)"
  from assms have "\<forall>k\<le>i. ?vs ! k = NaN" by simp
  with assms(1) have "ffill_values NaN ?vs ! i = NaN"
    by (intro ffill_values_leading) simp_all
  with assms(1) show ?thesis by (simp add: aligned_value)
qed

lemma aligned_prefix:
  assumes "i < length idx"
  shows "snd (reindex_ffill s idx ! i) = ffill_values NaN (map snd (reindex s (take (Suc i) idx))) ! i"
proof -
  have "ffill_values NaN (map snd (reindex s idx)) ! i
        = take (Suc i) (ffill_values NaN (map snd (reindex s idx))) ! i"
    by simp
  also have "\<dots> = ffill_values NaN (map snd (reindex s (take (Suc i) idx))) ! i"
    by (simp add: take_ffill_values reindex_def take_map)
  finally show ?thesis using assms by (simp add: aligned_value)
qed

lemma reindex_cong:
  assumes "\<forall>d\<in>set idx. map_of s' d = map_of s d"
  shows "reindex s' idx = reindex s idx"
  using assms by (simp add: reindex_def)

lemma aligned_no_lookahead:
  assumes "sorted idx" and "i < length idx"
    and "\<forall>d\<le>idx ! i. map_of s' d = map_of s d"
  shows "snd (reindex_ffill s' idx ! i) = snd (reindex_ffill s idx ! i)"
proof -
  have "\<forall>d\<in>set (take (Suc i) idx). d \<le> idx ! i"
  proof
    fix d assume "d \<in> set (take (Suc i) idx)"
    then obtain k where "k < Suc i" "k < length idx" "d = idx ! k"
      by (auto simp: in_set_conv_nth)
    with assms(1,2) show "d \<le> idx ! i"
      by (auto intro: sorted_nth_mono)
  qed
  with assms(3) have "reindex s' (take (Suc i) idx) = reindex s (take (Suc i) idx)"
    by (intro reindex_cong) auto
  with assms(2) show ?thesis by (simp add: aligned_prefix)
qed

lemma set_column_value:
  "map_of (columns (set_column df k s)) k = Some (map snd (reindex s (index df)))"
  by (simp add: set_column_def update_conv')

lemma index_set_column [simp]: "index (set_column df k s) = index df"
  by (simp add: set_column_def)

lemma map_of_set_column:
  "map_of (columns (set_column df k s)) k' =
     (if k' = k then Some (map snd (reindex s (index df))) else map_of (columns df) k')"
  by (simp add: set_column_def update_conv')

lemma set_column_nth:
  assumes "i < length (index df)"
  shows "map_option (\<lambda>c. c ! i) (map_of (columns (set_column df k s)) k)
         = Some (case map_of s (index df ! i) of None \<Rightarrow> NaN | Some v \<Rightarrow> v)"
  using assms by (simp add: set_column_value reindex_values)

text \<open>
  Claim C7, as the code has it. Only the volatility and the sentiment series are
  forward-filled, and the fill works on the series after it has been reindexed, so it
  can carry only what was observed on a date of the primary index. For a sorted primary
  index and the date at position \<open>i\<close> of it: an observation at that date that is not NaN
  is the aligned value; failing that, the aligned value is the last observation that is
  not NaN among the earlier dates of the primary index; when there is none, it is NaN;
  and it is the same for any two series that agree on all dates up to that date, so no
  later observation can change it. A series assigned to a column of the primary frame
  (breadth, credit spread, yield curve) is aligned by exact date only: NaN where the
  date has no observation, nothing carried forward.
\<close>

theorem forward_fill_alignment:
  assumes "sorted idx" and "i < length idx"
  shows "(\<forall>v. map_of s (idx ! i) = Some v \<and> v \<noteq> NaN \<longrightarrow> snd (reindex_ffill s idx ! i) = v)
    \<and> (\<forall>j v. unobserved s (idx ! i) \<and> j < i \<and> map_of s (idx ! j) = Some v \<and> v \<noteq> NaN
            \<and> (\<forall>k. j < k \<and> k < i \<longrightarrow> unobserved s (idx ! k))
          \<longrightarrow> snd (reindex_ffill s idx ! i) = v)
    \<and> ((\<forall>k\<le>i. unobserved s (idx ! k)) \<longrightarrow> snd (reindex_ffill s idx ! i) = NaN)
    \<and> (\<forall>s'. (\<forall>d\<le>idx ! i. map_of s' d = map_of s d)
          \<longrightarrow> snd (reindex_ffill s' idx ! i) = snd (reindex_ffill s idx ! i))
    \<and> (\<forall>df k. index df = idx \<longrightarrow>
          map_option (\<lambda>c. c ! i) (map_of (columns (set_column df k s)) k)
            = Some (case map_of s (idx ! i) of None \<Rightarrow> NaN | Some v \<Rightarrow> v))"
proof (intro conjI allI impI)
  fix v assume "map_of s (idx ! i) = Some v \<and> v \<noteq> NaN"
  with assms(2) have "snd (reindex s idx ! i) = v" "snd (reindex s idx ! i) \<noteq> NaN"
    by (simp_all add: reindex_nth)
  with assms(2) show "snd (reindex_ffill s idx ! i) = v"
    by (simp add: aligned_observed)
next
  fix j v
  assume a: "unobserved s (idx ! i) \<and> j < i \<and> map_of s (idx ! j) = Some v \<and> v \<noteq> NaN
     \<and> (\<forall>k. j < k \<and> k < i \<longrightarrow> unobserved s (idx ! k))"
  with assms(2) have j: "j < i" "snd (reindex s idx ! j) = v" "snd (reindex s idx ! j) \<noteq> NaN"
    by (simp_all add: reindex_nth)
  have "\<forall>k. j < k \<and> k \<le> i \<longrightarrow> snd (reindex s idx ! k) = NaN"
  proof (intro allI impI)
    fix k assume k: "j < k \<and> k \<le> i"
    with a have "unobserved s (idx ! k)" by (cases "k = i") auto
    with k assms(2) show "snd (reindex s idx ! k) = NaN"
      by (simp add: reindex_nth_NaN)
  qed
  with j assms(2) show "snd (reindex_ffill s idx ! i) = v"
    using aligned_carried [of i idx j s] by simp
next
  assume "\<forall>k\<le>i. unobserved s (idx ! k)"
  with assms(2) have "\<forall>k\<le>i. snd (reindex s idx ! k) = NaN"
    by (simp add: reindex_nth_NaN)
  with assms(2) show "snd (reindex_ffill s idx ! i) = NaN"
    by (rule aligned_leading)
next
  fix s' assume "\<forall>d\<le>idx ! i. map_of s' d = map_of s d"
  with assms show "snd (reindex_ffill s' idx ! i) = snd (reindex_ffill s idx ! i)"
    by (rule aligned_no_lookahead)
next
  fix df :: frame and k assume "index df = idx"
  with assms(2) show "map_option (\<lambda>c. c ! i) (map_of (columns (set_column df k s)) k)
            = Some (case map_of s (idx ! i) of None \<Rightarrow> NaN | Some v \<Rightarrow> v)"
    using set_column_nth [of i df k s] by simp
qed

theorem forward_fill_alignment_witness:
  "sorted [1, 2, 3, 4, 5, 6 :: date]
   \<and> snd (reindex_ffill [(3, Num 7)] [1, 2, 3, 4, 5, 6] ! 4) = Num 7
   \<and> snd (reindex_ffill [(3, Num 7)] [1, 2, 3, 4, 5, 6] ! 1) = NaN
   \<and> snd (reindex_ffill [(3, Num 7), (6, Num 9)] [1, 2, 3, 4, 5, 6] ! 4) = Num 7"
proof -
  let ?idx = "[1, 2, 3, 4, 5, 6 :: date]"
  let ?s = "[(3, Num 7)] :: series"
  have srt: "sorted ?idx" by simp
  have l4: "4 < length ?idx" and l1: "1 < length ?idx" by simp_all
  note t4 = forward_fill_alignment [OF srt l4, of ?s]
  note t1 = forward_fill_alignment [OF srt l1, of ?s]
  have gap: "\<forall>k. 2 < k \<and> k < 4 \<longrightarrow> unobserved ?s (?idx ! k)"
  proof (intro allI impI)
    fix k :: nat assume "2 < k \<and> k < 4"
    then have "k = 3" by arith
    then show "unobserved ?s (?idx ! k)" by (simp add: unobserved_def)
  qed
  have "unobserved ?s (?idx ! 4) \<and> (2::nat) < 4 \<and> map_of ?s (?idx ! 2) = Some (Num 7) \<and> Num 7 \<noteq> NaN
        \<and> (\<forall>k. 2 < k \<and> k < 4 \<longrightarrow> unobserved ?s (?idx ! k))"
    using gap by (simp add: unobserved_def)
  then have a: "snd (reindex_ffill ?s ?idx ! 4) = Num 7"
    by (rule t4 [THEN conjunct2, THEN conjunct1, rule_format])
  have lead: "\<forall>k\<le>1. unobserved ?s (?idx ! k)"
  proof (intro allI impI)
    fix k :: nat assume "k \<le> 1"
    then have "k = 0 \<or> k = 1" by arith
    then show "unobserved ?s (?idx ! k)" by (auto simp: unobserved_def)
  qed
  then have b: "snd (reindex_ffill ?s ?idx ! 1) = NaN"
    by (rule t1 [THEN conjunct2, THEN conjunct2, THEN conjunct1, THEN mp])
  have "\<forall>d\<le>?idx ! 4. map_of [(3, Num 7), (6, Num 9)] d = map_of ?s d"
    by simp
  then have "snd (reindex_ffill [(3, Num 7), (6, Num 9)] ?idx ! 4) = snd (reindex_ffill ?s ?idx ! 4)"
    by (rule t4 [THEN conjunct2, THEN conjunct2, THEN conjunct2, THEN conjunct1, THEN spec, THEN mp])
  with a have c: "snd (reindex_ffill [(3, Num 7), (6, Num 9)] ?idx ! 4) = Num 7"
    by simp
  from srt a b c show ?thesis
    by (intro conjI)
qed

text \<open>
  The claim C7 as the specification states it fails twice. With primary dates 1 and 3
  and a single observation of 7 at date 2, date 3 has no exact observation and the most
  recent prior observation is 7, yet the aligned value is NaN: date 2 is not in the
  primary index, so the observation is dropped before the fill. And a breadth series
  observed at date 1 only, assigned to a frame with dates 1 and 2, is NaN at date 2,
  not the 100 of date 1.
\<close>

theorem alignment_misses_prior_observation:
  "unobserved [(2, Num 7)] ([1, 3] ! 1)
   \<and> map_of [(2, Num 7)] 2 = Some (Num 7)
   \<and> snd (reindex_ffill [(2, Num 7)] [1, 3] ! 1) = NaN
   \<and> map_of (columns (set_column \<lparr>index = [1, 2], columns = []\<rparr> ''Breadth'' [(1, Num 100)])) ''Breadth''
       = Some [Num 100, NaN]"
  by (simp add: unobserved_def reindex_ffill_def ffill_def reindex_def set_column_def)

section \<open>Properties of the breadth proxy and the indicators\<close>

lemma length_rolling_mean [simp]: "length (rolling_mean xs w) = length xs"
  by (simp add: rolling_mean_def)

lemma length_SMA [simp]: "length (SMA xs w) = length xs"
  by (simp add: SMA_def)

lemma length_breadth_proxy [simp]: "length (breadth_proxy cs) = length cs"
  by (simp add: breadth_proxy_def)

lemma breadth_proxy_nth:
  "i < length cs \<Longrightarrow> breadth_proxy cs ! i
     = (if 49 \<le> i \<and> trailing_mean cs 50 i < cs ! i then Num 100 else Num 0)"
  by (auto simp: breadth_proxy_def rolling_mean_def py_gt_def)

lemma SMA_nth:
  "i < length xs \<Longrightarrow> SMA xs w ! i = (if Suc i < w then NaN else Num (trailing_mean xs w i))"
  by (simp add: SMA_def)

lemma deviation_nth_NaN:
  "i < length cs \<Longrightarrow> i < length ma \<Longrightarrow> ma ! i = NaN \<Longrightarrow> deviation cs ma ! i = NaN"
  by (simp add: deviation_def)

lemma pct_change_nth_NaN: "i < length xs \<Longrightarrow> i < n \<Longrightarrow> pct_change xs n ! i = NaN"
  by (simp add: pct_change_def)

lemma indicator_columns:
  "map_of (columns (calculate_technical_indicators ta b)) ''MA_50'' = Some (SMA (closes b) 50)"
  "map_of (columns (calculate_technical_indicators ta b)) ''MA_100'' = Some (SMA (closes b) 100)"
  "map_of (columns (calculate_technical_indicators ta b)) ''MA_200'' = Some (SMA (closes b) 200)"
  "map_of (columns (calculate_technical_indicators ta b)) ''Dev_50'' = Some (deviation (closes b) (SMA (closes b) 50))"
  "map_of (columns (calculate_technical_indicators ta b)) ''Dev_100'' = Some (deviation (closes b) (SMA (closes b) 100))"
  "map_of (columns (calculate_technical_indicators ta b)) ''Dev_200'' = Some (deviation (closes b) (SMA (closes b) 200))"
  "map_of (columns (calculate_technical_indicators ta b)) ''Momentum_5D''
     = Some (map (\<lambda>x. py_mul x (Num 100)) (pct_change (closes b) 5))"
  by (simp_all add: calculate_technical_indicators_def frame_of_bars_def Let_def)

lemma index_indicators [simp]: "index (calculate_technical_indicators ta b) = dates b"
  by (simp add: calculate_technical_indicators_def frame_of_bars_def Let_def)

lemma build_primary_df_Dev_200:
  "map_of (columns (build_primary_df ta b br js yc)) ''Dev_200''
     = Some (deviation (closes b) (SMA (closes b) 200))"
  by (simp add: build_primary_df_def map_of_set_column indicator_columns)

lemma index_build_primary_df [simp]: "index (build_primary_df ta b br js yc) = dates b"
  by (simp add: build_primary_df_def)

lemma Dev_200_short:
  assumes "wf_bars b" and "i < length (dates b)" and "i < 199"
  shows "deviation (closes b) (SMA (closes b) 200) ! i = NaN"
proof -
  from assms(1,2) have "i < length (closes b)" by (simp add: wf_bars_def)
  with assms(3) show ?thesis
    by (intro deviation_nth_NaN) (simp_all add: SMA_nth)
qed

lemma length_pct_change [simp]: "length (pct_change xs n) = length xs"
  by (simp add: pct_change_def)

lemma MA_short:
  assumes "i < length cs" and "Suc i < w"
  shows "SMA cs w ! i = NaN" "deviation cs (SMA cs w) ! i = NaN"
  using assms by (simp_all add: SMA_nth deviation_nth_NaN)

lemma sum_list_window:
  assumes "n + w \<le> length xs"
  shows "sum_list (take w (drop n xs)) = (\<Sum>k = n..<n + w. xs ! k)"
proof -
  from assms have "min (length xs - n) w = w"
    by simp
  then have "sum_list (take w (drop n xs)) = (\<Sum>j = 0..<w. xs ! (n + j))"
    by (simp add: sum_list_sum_nth)
  also have "\<dots> = (\<Sum>k = n..<n + w. xs ! k)"
    by (rule sum.reindex_bij_witness [of _ "\<lambda>k. k - n" "\<lambda>j. n + j"]) auto
  finally show ?thesis .
qed

lemma trailing_mean_sum:
  assumes "w \<le> Suc i" and "i < length xs"
  shows "trailing_mean xs w i = (\<Sum>k = Suc i - w..<Suc i. xs ! k) / real w"
proof -
  from assms have "sum_list (take w (drop (Suc i - w) xs)) = (\<Sum>k = Suc i - w..<Suc i - w + w. xs ! k)"
    by (intro sum_list_window) simp
  with assms(1) show ?thesis
    by (simp add: trailing_mean_def)
qed

text \<open>
  Claim C6, as the code has it. The breadth column of \<^verbatim>\<open>calculate_market_breadth\<close> has one
  entry per date; the entry is 100 when the date has a 50-day window and its close
  strictly exceeds the mean of the 50 closes that end with it, and 0 otherwise. On each of
  the first 49 dates, where there is no window, the entry is 0, not undefined: the
  comparison with the NaN mean is false and the truth value is cast to an integer.
\<close>

theorem breadth_proxy_values:
  "map_of (columns (calculate_market_breadth b)) ''Breadth_Proxy'' = Some (breadth_proxy (closes b))
   \<and> length (breadth_proxy (closes b)) = length (closes b)
   \<and> (\<forall>i<length (closes b). breadth_proxy (closes b) ! i =
        (if 49 \<le> i \<and> trailing_mean (closes b) 50 i < closes b ! i then Num 100 else Num 0))
   \<and> (\<forall>i<length (closes b). i < 49 \<longrightarrow> breadth_proxy (closes b) ! i = Num 0)
   \<and> (\<forall>i<length (closes b). 49 \<le> i \<longrightarrow>
         trailing_mean (closes b) 50 i = (\<Sum>k = i - 49..<Suc i. closes b ! k) / 50)"
proof (intro conjI allI impI)
  show "map_of (columns (calculate_market_breadth b)) ''Breadth_Proxy'' = Some (breadth_proxy (closes b))"
    by (simp add: calculate_market_breadth_def frame_of_bars_def)
next
  show "length (breadth_proxy (closes b)) = length (closes b)"
    by simp
next
  fix i assume "i < length (closes b)"
  then show "breadth_proxy (closes b) ! i =
      (if 49 \<le> i \<and> trailing_mean (closes b) 50 i < closes b ! i then Num 100 else Num 0)"
    by (rule breadth_proxy_nth)
next
  fix i assume "i < length (closes b)" and "i < 49"
  then show "breadth_proxy (closes b) ! i = Num 0"
    by (simp add: breadth_proxy_nth)
next
  fix i assume "i < length (closes b)" and "49 \<le> i"
  then show "trailing_mean (closes b) 50 i = (\<Sum>k = i - 49..<Suc i. closes b ! k) / 50"
    using trailing_mean_sum [of 50 i "closes b"] by simp
qed

theorem breadth_proxy_values_witness:
  "breadth_proxy (closes fifty_bars) ! 49 = Num 100
   \<and> breadth_proxy (closes fifty_bars) ! 48 = Num 0
   \<and> breadth_proxy (closes fifty_bars) ! 0 = Num 0
   \<and> trailing_mean (closes fifty_bars) 50 49 < closes fifty_bars ! 49"
proof -
  have c: "closes fifty_bars = replicate 49 1 @ [2]"
    by (simp add: fifty_bars_def)
  have l: "length (closes fifty_bars) = 50"
    by (simp add: c)
  have m: "trailing_mean (closes fifty_bars) 50 49 = 51 / 50"
    by (simp add: trailing_mean_def c sum_list_replicate)
  have n: "closes fifty_bars ! 49 = 2"
    by (simp add: c nth_append)
  note t = breadth_proxy_values [of fifty_bars, THEN conjunct2, THEN conjunct2, THEN conjunct1, rule_format]
  have "breadth_proxy (closes fifty_bars) ! 49 = Num 100"
    using t [of 49] l m n by simp
  moreover have "breadth_proxy (closes fifty_bars) ! 48 = Num 0"
    using t [of 48] l by simp
  moreover have "breadth_proxy (closes fifty_bars) ! 0 = Num 0"
    using t [of 0] l by simp
  ultimately show ?thesis using m n by simp
qed

text \<open>
  The claim C6 as the specification states it (the proxy is undefined, not 0, before
  the 50th observation) fails on a history of one bar: its breadth is 0.
\<close>

theorem breadth_proxy_early_rows_zero:
  "map_of (columns (calculate_market_breadth single_bar)) ''Breadth_Proxy'' = Some [Num 0]
   \<and> Num 0 \<noteq> NaN"
  by (simp add: calculate_market_breadth_def frame_of_bars_def breadth_proxy_def rolling_mean_def
      single_bar_def py_gt_def)

text \<open>
  Claim C10. The indicator stage of a run fails if and only if the primary history is
  empty: \<^verbatim>\<open>fetch_all_data\<close> then returns \<^verbatim>\<open>None\<close> and the run stops before
  \<^verbatim>\<open>calculate_technical_indicators\<close> is reached. For a history that is not empty,
  however short, the stage returns the frame of indicators on the dates of the history,
  and leaves undefined (NaN) exactly what lacks its window: the N-day average and the
  deviation from it on the first N - 1 rows, for N = 50, 100 and 200, and the momentum on
  the first 5 rows; from row 49 on the 50-day average is the mean of the last 50 closes.
\<close>

theorem indicators_fail_only_on_empty_input:
  assumes "wf_bars (ticker_data dl)"
  shows "(primary_indicators ta dl = None \<longleftrightarrow> dates (ticker_data dl) = [])
    \<and> (dates (ticker_data dl) \<noteq> [] \<longrightarrow>
        (\<exists>df. primary_indicators ta dl = Some df \<and> index df = dates (ticker_data dl)
           \<and> (\<forall>i<length (dates (ticker_data dl)).
                (i < 49 \<longrightarrow> map_of (items (iloc df i)) ''MA_50'' = Some NaN
                           \<and> map_of (items (iloc df i)) ''Dev_50'' = Some NaN)
              \<and> (i < 99 \<longrightarrow> map_of (items (iloc df i)) ''MA_100'' = Some NaN
                           \<and> map_of (items (iloc df i)) ''Dev_100'' = Some NaN)
              \<and> (i < 199 \<longrightarrow> map_of (items (iloc df i)) ''MA_200'' = Some NaN
                           \<and> map_of (items (iloc df i)) ''Dev_200'' = Some NaN)
              \<and> (i < 5 \<longrightarrow> map_of (items (iloc df i)) ''Momentum_5D'' = Some NaN)
              \<and> (49 \<le> i \<longrightarrow> map_of (items (iloc df i)) ''MA_50''
                                = Some (Num (trailing_mean (closes (ticker_data dl)) 50 i))))))"
proof (intro conjI impI)
  show "primary_indicators ta dl = None \<longleftrightarrow> dates (ticker_data dl) = []"
    by (simp add: primary_indicators_def fetch_all_data_def)
next
  assume ne: "dates (ticker_data dl) \<noteq> []"
  let ?b = "ticker_data dl"
  let ?df = "calculate_technical_indicators ta ?b"
  from ne have s: "primary_indicators ta dl = Some ?df"
    by (simp add: primary_indicators_def fetch_all_data_def)
  have "(i < 49 \<longrightarrow> map_of (items (iloc ?df i)) ''MA_50'' = Some NaN
                           \<and> map_of (items (iloc ?df i)) ''Dev_50'' = Some NaN)
              \<and> (i < 99 \<longrightarrow> map_of (items (iloc ?df i)) ''MA_100'' = Some NaN
                           \<and> map_of (items (iloc ?df i)) ''Dev_100'' = Some NaN)
              \<and> (i < 199 \<longrightarrow> map_of (items (iloc ?df i)) ''MA_200'' = Some NaN
                           \<and> map_of (items (iloc ?df i)) ''Dev_200'' = Some NaN)
              \<and> (i < 5 \<longrightarrow> map_of (items (iloc ?df i)) ''Momentum_5D'' = Some NaN)
              \<and> (49 \<le> i \<longrightarrow> map_of (items (iloc ?df i)) ''MA_50''
                                = Some (Num (trailing_mean (closes ?b) 50 i)))"
    if "i < length (dates ?b)" for i
  proof -
    from that assms have "i < length (closes ?b)"
      by (simp add: wf_bars_def)
    then show ?thesis
      by (simp add: map_of_iloc indicator_columns MA_short pct_change_nth_NaN SMA_nth)
  qed
  with s show "\<exists>df. primary_indicators ta dl = Some df \<and> index df = dates ?b
           \<and> (\<forall>i<length (dates ?b).
                (i < 49 \<longrightarrow> map_of (items (iloc df i)) ''MA_50'' = Some NaN
                           \<and> map_of (items (iloc df i)) ''Dev_50'' = Some NaN)
              \<and> (i < 99 \<longrightarrow> map_of (items (iloc df i)) ''MA_100'' = Some NaN
                           \<and> map_of (items (iloc df i)) ''Dev_100'' = Some NaN)
              \<and> (i < 199 \<longrightarrow> map_of (items (iloc df i)) ''MA_200'' = Some NaN
                           \<and> map_of (items (iloc df i)) ''Dev_200'' = Some NaN)
              \<and> (i < 5 \<longrightarrow> map_of (items (iloc df i)) ''Momentum_5D'' = Some NaN)
              \<and> (49 \<le> i \<longrightarrow> map_of (items (iloc df i)) ''MA_50''
                                = Some (Num (trailing_mean (closes ?b) 50 i))))"
    by (intro exI [of _ ?df]) simp
qed

theorem indicators_fail_only_on_empty_input_witness:
  "wf_bars (ticker_data empty_downloads) \<and> wf_bars (ticker_data single_bar_downloads)
   \<and> primary_indicators short_talib empty_downloads = None
   \<and> (\<exists>df. primary_indicators short_talib single_bar_downloads = Some df
         \<and> index df = [1]
         \<and> map_of (items (iloc df 0)) ''MA_50'' = Some NaN
         \<and> map_of (items (iloc df 0)) ''Dev_200'' = Some NaN
         \<and> map_of (items (iloc df 0)) ''Momentum_5D'' = Some NaN)"
proof -
  have w0: "wf_bars (ticker_data empty_downloads)"
    by (simp add: wf_bars_def empty_downloads_def no_bars_def)
  have w1: "wf_bars (ticker_data single_bar_downloads)"
    by (simp add: wf_bars_def single_bar_downloads_def single_bar_def)
  have d0: "dates (ticker_data empty_downloads) = []"
    by (simp add: empty_downloads_def no_bars_def)
  have d1: "dates (ticker_data single_bar_downloads) = [1]"
    by (simp add: single_bar_downloads_def single_bar_def)
  from indicators_fail_only_on_empty_input [OF w0, of short_talib] d0
  have a: "primary_indicators short_talib empty_downloads = None"
    by simp
  from indicators_fail_only_on_empty_input [OF w1, of short_talib] d1
  obtain df where df: "primary_indicators short_talib single_bar_downloads = Some df"
    "index df = [1]"
    and rows: "\<forall>i<length [1::date].
                (i < 49 \<longrightarrow> map_of (items (iloc df i)) ''MA_50'' = Some NaN
                           \<and> map_of (items (iloc df i)) ''Dev_50'' = Some NaN)
              \<and> (i < 99 \<longrightarrow> map_of (items (iloc df i)) ''MA_100'' = Some NaN
                           \<and> map_of (items (iloc df i)) ''Dev_100'' = Some NaN)
              \<and> (i < 199 \<longrightarrow> map_of (items (iloc df i)) ''MA_200'' = Some NaN
                           \<and> map_of (items (iloc df i)) ''Dev_200'' = Some NaN)
              \<and> (i < 5 \<longrightarrow> map_of (items (iloc df i)) ''Momentum_5D'' = Some NaN)
              \<and> (49 \<le> i \<longrightarrow> map_of (items (iloc df i)) ''MA_50''
                    = Some (Num (trailing_mean (closes (ticker_data single_bar_downloads)) 50 i)))"
    by auto
  from rows [rule_format, of 0] have
    "map_of (items (iloc df 0)) ''MA_50'' = Some NaN"
    "map_of (items (iloc df 0)) ''Dev_200'' = Some NaN"
    "map_of (items (iloc df 0)) ''Momentum_5D'' = Some NaN"
    by simp_all
  with df have "\<exists>df. primary_indicators short_talib single_bar_downloads = Some df
         \<and> index df = [1]
         \<and> map_of (items (iloc df 0)) ''MA_50'' = Some NaN
         \<and> map_of (items (iloc df 0)) ''Dev_200'' = Some NaN
         \<and> map_of (items (iloc df 0)) ''Momentum_5D'' = Some NaN"
    by blast
  with w0 w1 a show ?thesis
    by (intro conjI)
qed

text \<open>
  Claim C4 describes a substitution that the code attempts and misses. On each of the
  first 199 rows of the primary frame the deviation from the 200-day average is
  undefined; the row holds the key \<^verbatim>\<open>Dev_200\<close> with the value NaN, so
  \<^verbatim>\<open>row.get('Dev_200', 0)\<close> returns NaN and not the default 0, and the score of the row
  is 100 whatever the other signals are. No error is raised.
\<close>

theorem undefined_field_not_defaulted:
  assumes "wf_bars b" and "i < length (dates b)" and "i < 199"
  shows "row_get (iloc (build_primary_df ta b br js yc) i) ''Dev_200'' (Num 0) = NaN
    \<and> calculate_composite_score vix_series pcr_series (iloc (build_primary_df ta b br js yc) i) = Num 100"
proof -
  have d: "map_of (items (iloc (build_primary_df ta b br js yc) i)) ''Dev_200'' = Some NaN"
    by (simp add: map_of_iloc build_primary_df_Dev_200 Dev_200_short [OF assms])
  then have "row_get (iloc (build_primary_df ta b br js yc) i) ''Dev_200'' (Num 0) = NaN"
    by (simp add: row_get_def)
  moreover have "''Dev_200'' \<in> set consumed_fields"
    by (simp add: consumed_fields_def)
  with d have "calculate_composite_score vix_series pcr_series (iloc (build_primary_df ta b br js yc) i) = Num 100"
    by (intro score_of_NaN_row_item)
  ultimately show ?thesis by simp
qed

theorem undefined_field_not_defaulted_witness:
  "wf_bars single_bar
   \<and> row_get (iloc (build_primary_df short_talib single_bar [] [] []) 0) ''Dev_200'' (Num 0) = NaN
   \<and> calculate_composite_score [] [] (iloc (build_primary_df short_talib single_bar [] [] []) 0) = Num 100"
proof -
  have w: "wf_bars single_bar"
    by (simp add: wf_bars_def single_bar_def)
  have l: "0 < length (dates single_bar)"
    by (simp add: single_bar_def)
  from undefined_field_not_defaulted [OF w l, of short_talib "[]" "[]" "[]" "[]" "[]"] w
  show ?thesis by simp
qed

end
